theory Spec2Isabelle
  imports Complex_Main
begin

section \<open>rpnpy: tokenizer, shunting-yard reorderer and RPN evaluator\<close>

text \<open>
  A shallow embedding of \<^verbatim>\<open>expression.py\<close> and \<^verbatim>\<open>rpn.py\<close>.

  Conventions of the embedding.
  \<^item> A Python list is a HOL list in the same order: \<^verbatim>\<open>xs.append(v)\<close> is \<open>xs @ [v]\<close>,
    \<^verbatim>\<open>xs[-1]\<close> is \<open>last xs\<close>, \<^verbatim>\<open>xs.pop()\<close> leaves \<open>butlast xs\<close>. Reading or popping
    beyond the list raises \<^verbatim>\<open>IndexError\<close>, which the embedding writes out.
  \<^item> An exception is a value of type \<open>error\<close>; a function that can raise returns
    \<open>error + 'a\<close>, with \<open>Inl\<close> for the exception.
  \<^item> A list that the code mutates in place and that its caller keeps (the evaluation
    stack) is returned together with the result, also when an exception is raised.
  \<^item> Python numbers (the floats of literals and of arithmetic, the integers \<^verbatim>\<open>0\<close> and
    \<^verbatim>\<open>1\<close> the code starts its register and its accumulators from) are the real numbers they
    denote. Rounding, overflow, infinities and the difference between \<^verbatim>\<open>6\<close> and
    \<^verbatim>\<open>6.0\<close> are outside the embedding.
  \<^item> A character is the code point of the same number, so the input alphabet is the
    first 256 code points.
\<close>

subsection \<open>Exceptions\<close>

datatype error =
    SyntaxError string
  | ValueError
  | IndexError
  | KeyError
  | ZeroDivisionError
  | Warning string
  | ComplexResult
    \<comment> \<open>not an exception: \<^verbatim>\<open>**\<close> of a negative base and a fractional exponent gives a
        complex number in Python, which a stack of reals cannot hold; the embedding stops there\<close>

subsection \<open>Tokens and the operator table (expression.py)\<close>

text \<open>
  \<^verbatim>\<open>Token = namedtuple("Token", "type value")\<close>: the type is one of seven strings, the
  value a float for a literal and a string otherwise.
\<close>

datatype token =
    Literal real
  | Constant string
  | Function string
  | Operator string
  | LParen string
  | RParen string
  | Separator string

fun is_Operator :: "token \<Rightarrow> bool" where
  "is_Operator (Operator v) = True"
| "is_Operator t = False"

fun is_LParen :: "token \<Rightarrow> bool" where
  "is_LParen (LParen v) = True"
| "is_LParen t = False"

fun is_RParen :: "token \<Rightarrow> bool" where
  "is_RParen (RParen v) = True"
| "is_RParen t = False"

fun is_Function :: "token \<Rightarrow> bool" where
  "is_Function (Function v) = True"
| "is_Function t = False"

text \<open>\<^verbatim>\<open>Operator = namedtuple("Operator", "prec assoc")\<close> and the table \<^verbatim>\<open>OPS\<close>.\<close>

record Operator_info =
  prec :: nat
  assoc :: char

definition OPS :: "string \<rightharpoonup> Operator_info" where
  "OPS = [''+'' \<mapsto> \<lparr>prec = 2, assoc = CHR ''L''\<rparr>,
          ''-'' \<mapsto> \<lparr>prec = 2, assoc = CHR ''L''\<rparr>,
          ''/'' \<mapsto> \<lparr>prec = 3, assoc = CHR ''L''\<rparr>,
          ''*'' \<mapsto> \<lparr>prec = 3, assoc = CHR ''L''\<rparr>,
          ''^'' \<mapsto> \<lparr>prec = 4, assoc = CHR ''R''\<rparr>]"

text \<open>
  \<^verbatim>\<open>OPS[token.value]\<close>: a \<^verbatim>\<open>KeyError\<close> when the value is not a key of the table (a float
  never is).
\<close>

fun OPS_lookup :: "token \<Rightarrow> error + Operator_info" where
  "OPS_lookup (Literal x) = Inl KeyError"
| "OPS_lookup (Constant v) = (case OPS v of None \<Rightarrow> Inl KeyError | Some oi \<Rightarrow> Inr oi)"
| "OPS_lookup (Function v) = (case OPS v of None \<Rightarrow> Inl KeyError | Some oi \<Rightarrow> Inr oi)"
| "OPS_lookup (Operator v) = (case OPS v of None \<Rightarrow> Inl KeyError | Some oi \<Rightarrow> Inr oi)"
| "OPS_lookup (LParen v) = (case OPS v of None \<Rightarrow> Inl KeyError | Some oi \<Rightarrow> Inr oi)"
| "OPS_lookup (RParen v) = (case OPS v of None \<Rightarrow> Inl KeyError | Some oi \<Rightarrow> Inr oi)"
| "OPS_lookup (Separator v) = (case OPS v of None \<Rightarrow> Inl KeyError | Some oi \<Rightarrow> Inr oi)"

subsection \<open>Characters and \<^verbatim>\<open>float()\<close>\<close>

text \<open>
  \<^verbatim>\<open>str.isdigit\<close>, \<^verbatim>\<open>str.isalpha\<close> and \<^verbatim>\<open>str.isspace\<close> on the first 256 code points.
  The superscripts \<^verbatim>\<open>0xB2\<close>, \<^verbatim>\<open>0xB3\<close> and \<^verbatim>\<open>0xB9\<close> are digits for \<^verbatim>\<open>isdigit\<close>.
\<close>

definition code :: "char \<Rightarrow> nat" where
  "code c = of_char c"

definition is_decimal :: "char \<Rightarrow> bool" where
  "is_decimal c = (48 \<le> code c \<and> code c \<le> 57)"

definition isdigit :: "char \<Rightarrow> bool" where
  "isdigit c = (is_decimal c \<or> code c = 178 \<or> code c = 179 \<or> code c = 185)"

definition isalpha :: "char \<Rightarrow> bool" where
  "isalpha c =
     ((65 \<le> code c \<and> code c \<le> 90) \<or> (97 \<le> code c \<and> code c \<le> 122) \<or>
      code c = 170 \<or> code c = 181 \<or> code c = 186 \<or>
      (192 \<le> code c \<and> code c \<le> 214) \<or> (216 \<le> code c \<and> code c \<le> 246) \<or>
      248 \<le> code c)"

definition isspace :: "char \<Rightarrow> bool" where
  "isspace c =
     ((9 \<le> code c \<and> code c \<le> 13) \<or> (28 \<le> code c \<and> code c \<le> 32) \<or>
      code c = 133 \<or> code c = 160)"

text \<open>
  \<^verbatim>\<open>float(s)\<close> on the strings the numeric buffer can hold (\<^verbatim>\<open>isdigit\<close> characters,
  \<^verbatim>\<open>-\<close> and \<^verbatim>\<open>.\<close>): an optional leading \<^verbatim>\<open>-\<close>, then decimal digits with at most one
  \<^verbatim>\<open>.\<close> among them and at least one digit; anything else is a \<^verbatim>\<open>ValueError\<close>.
\<close>

definition digits_value :: "string \<Rightarrow> nat" where
  "digits_value ds = foldl (\<lambda>a c. 10 * a + (code c - 48)) 0 ds"

definition unsigned_float :: "string \<Rightarrow> error + real" where
  "unsigned_float s =
     (let ip = takeWhile is_decimal s;
          rest = dropWhile is_decimal s;
          fp = (case rest of [] \<Rightarrow> [] | c # r \<Rightarrow> r);
          shape = (case rest of [] \<Rightarrow> True
                   | c # r \<Rightarrow> c = CHR ''.'' \<and> list_all is_decimal r)
      in if shape \<and> (ip \<noteq> [] \<or> fp \<noteq> [])
         then Inr (real (digits_value (ip @ fp)) / 10 ^ length fp)
         else Inl ValueError)"

definition float :: "string \<Rightarrow> error + real" where
  "float s =
     (case s of
        [] \<Rightarrow> Inl ValueError
      | c # r \<Rightarrow>
          if c = CHR ''-''
          then (case unsigned_float r of Inl e \<Rightarrow> Inl e | Inr x \<Rightarrow> Inr (- x))
          else unsigned_float s)"

subsection \<open>tokenize (expression.py)\<close>

text \<open>
  The local state of \<^verbatim>\<open>tokenize\<close>: the token list and the two buffers.
  \<^verbatim>\<open>empty_buffers\<close> is the nested function: the letter buffer first, then the numeric
  buffer. For the numeric buffer \<^verbatim>\<open>['-']\<close> the source appends the operator token and then,
  with no \<^verbatim>\<open>else\<close>, goes on to \<^verbatim>\<open>float('-')\<close>.
\<close>

record tok_state =
  tokens :: "token list"
  letter_buffer :: string
  number_buffer :: string

definition flush_letters :: "tok_state \<Rightarrow> tok_state" where
  "flush_letters s =
     (if letter_buffer s \<noteq> []
      then s\<lparr>tokens := tokens s @
                 [if letter_buffer s \<in> set [''e'', ''pi'']
                  then Constant (letter_buffer s) else Function (letter_buffer s)],
              letter_buffer := []\<rparr>
      else s)"

definition flush_number :: "tok_state \<Rightarrow> error + tok_state" where
  "flush_number s =
     (if number_buffer s \<noteq> []
      then (let s1 = (if number_buffer s = ''-''
                      then s\<lparr>tokens := tokens s @ [Operator ''-'']\<rparr> else s)
            in case float (number_buffer s) of
                 Inl e \<Rightarrow> Inl e
               | Inr x \<Rightarrow> Inr (s1\<lparr>tokens := tokens s1 @ [Literal x], number_buffer := []\<rparr>))
      else Inr s)"

definition empty_buffers :: "tok_state \<Rightarrow> error + tok_state" where
  "empty_buffers s = flush_number (flush_letters s)"

definition emit :: "token \<Rightarrow> tok_state \<Rightarrow> error + tok_state" where
  "emit t s =
     (case empty_buffers s of
        Inl e \<Rightarrow> Inl e
      | Inr s' \<Rightarrow> Inr (s'\<lparr>tokens := tokens s' @ [t]\<rparr>))"

text \<open>One turn of the loop \<^verbatim>\<open>for char in expr\<close>, with the tests in the source's order.\<close>

definition tokenize_char :: "char \<Rightarrow> tok_state \<Rightarrow> error + tok_state" where
  "tokenize_char c s =
     (if isdigit c \<or> c \<in> set ''-.'' then Inr (s\<lparr>number_buffer := number_buffer s @ [c]\<rparr>)
      else if isalpha c then
        (case (if number_buffer s \<noteq> [] then empty_buffers s else Inr s) of
           Inl e \<Rightarrow> Inl e
         | Inr s' \<Rightarrow> Inr (s'\<lparr>letter_buffer := letter_buffer s' @ [c]\<rparr>))
      else if OPS [c] \<noteq> None then emit (Operator [c]) s
      else if c \<in> set ''(['' then emit (LParen [c]) s
      else if c \<in> set '')]'' then emit (RParen [c]) s
      else if c = CHR '','' then emit (Separator [c]) s
      else if isspace c then empty_buffers s
      else Inl (SyntaxError (''unexpected '' @ [CHR 0x22, c, CHR 0x22])))"

fun tokenize_loop :: "string \<Rightarrow> tok_state \<Rightarrow> error + tok_state" where
  "tokenize_loop [] s = Inr s"
| "tokenize_loop (c # cs) s =
     (case tokenize_char c s of Inl e \<Rightarrow> Inl e | Inr s' \<Rightarrow> tokenize_loop cs s')"

definition tokenize :: "string \<Rightarrow> error + token list" where
  "tokenize expr =
     (case tokenize_loop expr \<lparr>tokens = [], letter_buffer = [], number_buffer = []\<rparr> of
        Inl e \<Rightarrow> Inl e
      | Inr s \<Rightarrow> (case empty_buffers s of Inl e \<Rightarrow> Inl e | Inr s' \<Rightarrow> Inr (tokens s')))"

subsection \<open>shunting_yard (expression.py)\<close>

text \<open>
  The operator stack is a Python list with its top at the end. The loops that pop it are
  recursive functions on the pair of the output queue and the stack.

  \<^verbatim>\<open>while stack and stack[-1].type != 'LParen': output.append(stack.pop())\<close>,
  the loop of the \<^verbatim>\<open>Separator\<close> and \<^verbatim>\<open>RParen\<close> branches:
\<close>

function pop_to_LParen :: "token list \<Rightarrow> token list \<Rightarrow> token list \<times> token list" where
  "pop_to_LParen output stack =
     (if stack \<noteq> [] \<and> \<not> is_LParen (last stack)
      then pop_to_LParen (output @ [last stack]) (butlast stack)
      else (output, stack))"
  by pat_completeness auto
termination
  by (relation "measure (\<lambda>(output, stack). length stack)") auto

text \<open>
  The condition of the \<^verbatim>\<open>while\<close> of the \<^verbatim>\<open>Operator\<close> branch. Python reads it as
  \<^verbatim>\<open>(stack and top is Operator and (L and prec <= top.prec)) or (R and prec < top.prec)\<close>:
  \<^verbatim>\<open>and\<close> binds tighter than \<^verbatim>\<open>or\<close>, so the second disjunct is evaluated whenever the
  first is false, also on an empty stack, where \<^verbatim>\<open>stack[-1]\<close> raises \<^verbatim>\<open>IndexError\<close>, and
  on a top that is no operator, where \<^verbatim>\<open>OPS[...]\<close> raises \<^verbatim>\<open>KeyError\<close>.
\<close>

definition left_disjunct :: "token \<Rightarrow> token list \<Rightarrow> error + bool" where
  "left_disjunct token stack =
     (if stack \<noteq> [] \<and> is_Operator (last stack)
      then (case OPS_lookup token of
              Inl e \<Rightarrow> Inl e
            | Inr t \<Rightarrow>
                if assoc t = CHR ''L''
                then (case OPS_lookup (last stack) of
                        Inl e \<Rightarrow> Inl e
                      | Inr u \<Rightarrow> Inr (prec t \<le> prec u))
                else Inr False)
      else Inr False)"

definition right_disjunct :: "token \<Rightarrow> token list \<Rightarrow> error + bool" where
  "right_disjunct token stack =
     (case OPS_lookup token of
        Inl e \<Rightarrow> Inl e
      | Inr t \<Rightarrow>
          if assoc t = CHR ''R''
          then (if stack = [] then Inl IndexError
                else (case OPS_lookup (last stack) of
                        Inl e \<Rightarrow> Inl e
                      | Inr u \<Rightarrow> Inr (prec t < prec u)))
          else Inr False)"

definition while_condition :: "token \<Rightarrow> token list \<Rightarrow> error + bool" where
  "while_condition token stack =
     (case left_disjunct token stack of
        Inl e \<Rightarrow> Inl e
      | Inr b \<Rightarrow> if b then Inr True else right_disjunct token stack)"

lemma while_condition_nonempty: "while_condition token stack = Inr True \<Longrightarrow> stack \<noteq> []"
  by (auto simp: while_condition_def left_disjunct_def right_disjunct_def
      split: sum.splits if_splits)

function pop_operators ::
  "token \<Rightarrow> token list \<Rightarrow> token list \<Rightarrow> error + token list \<times> token list" where
  "pop_operators token output stack =
     (case while_condition token stack of
        Inl e \<Rightarrow> Inl e
      | Inr b \<Rightarrow>
          if b then pop_operators token (output @ [last stack]) (butlast stack)
          else Inr (output, stack))"
  by pat_completeness auto
termination
  by (relation "measure (\<lambda>(token, output, stack). length stack)")
    (auto dest: while_condition_nonempty)

text \<open>One turn of \<^verbatim>\<open>for token in expr\<close>.\<close>

fun shunting_yard_token ::
  "token \<Rightarrow> token list \<Rightarrow> token list \<Rightarrow> error + token list \<times> token list" where
  "shunting_yard_token (Literal x) output stack = Inr (output @ [Literal x], stack)"
| "shunting_yard_token (Constant v) output stack = Inr (output @ [Constant v], stack)"
| "shunting_yard_token (Function v) output stack = Inr (output, stack @ [Function v])"
| "shunting_yard_token (Separator v) output stack =
     (case pop_to_LParen output stack of
        (output', stack') \<Rightarrow>
          if stack' = [] then Inl (SyntaxError ''mismatched parentheses'')
          else Inr (output', stack'))"
| "shunting_yard_token (Operator v) output stack =
     (case pop_operators (Operator v) output stack of
        Inl e \<Rightarrow> Inl e
      | Inr (output', stack') \<Rightarrow> Inr (output', stack' @ [Operator v]))"
| "shunting_yard_token (LParen v) output stack = Inr (output, stack @ [LParen v])"
| "shunting_yard_token (RParen v) output stack =
     (case pop_to_LParen output stack of
        (output', stack') \<Rightarrow>
          if stack' = [] then Inl IndexError
          else if is_LParen (last stack')
          then (let stack'' = butlast stack'
                in if stack'' \<noteq> [] \<and> is_Function (last stack'')
                   then Inr (output' @ [last stack''], butlast stack'')
                   else Inr (output', stack''))
          else Inl (SyntaxError ''mismatched parentheses''))"

fun shunting_yard_loop ::
  "token list \<Rightarrow> token list \<Rightarrow> token list \<Rightarrow> error + token list \<times> token list" where
  "shunting_yard_loop [] output stack = Inr (output, stack)"
| "shunting_yard_loop (token # expr) output stack =
     (case shunting_yard_token token output stack of
        Inl e \<Rightarrow> Inl e
      | Inr (output', stack') \<Rightarrow> shunting_yard_loop expr output' stack')"

text \<open>The last loop, \<^verbatim>\<open>while stack\<close>.\<close>

function pop_remaining :: "token list \<Rightarrow> token list \<Rightarrow> error + token list" where
  "pop_remaining output stack =
     (if stack \<noteq> []
      then (if is_LParen (last stack) \<or> is_RParen (last stack)
            then Inl (SyntaxError ''mismatched parentheses'')
            else pop_remaining (output @ [last stack]) (butlast stack))
      else Inr output)"
  by pat_completeness auto
termination
  by (relation "measure (\<lambda>(output, stack). length stack)") auto

definition shunting_yard :: "token list \<Rightarrow> error + token list" where
  "shunting_yard expr =
     (case shunting_yard_loop expr [] [] of
        Inl e \<Rightarrow> Inl e
      | Inr (output, stack) \<Rightarrow> pop_remaining output stack)"

subsection \<open>The operator handlers (rpn.py)\<close>

text \<open>
  What an evaluation reads and writes besides the stack: the attribute \<^verbatim>\<open>ans\<close> of the
  calculator (the class attribute \<^verbatim>\<open>ans = 0\<close> until the first assignment) and the
  generator behind \<^verbatim>\<open>random.random()\<close>, here the sequence of the values it will hand out.
\<close>

record calc =
  ans :: real
  random_source :: "nat \<Rightarrow> real"

definition RPNCalculator :: "(nat \<Rightarrow> real) \<Rightarrow> calc" where
  "RPNCalculator g = \<lparr>ans = 0, random_source = g\<rparr>"

text \<open>
  A handler takes the stack, mutates it and returns a number or raises. It is a function
  from the state and the stack to the result, the stack it leaves and the state it leaves.
\<close>

type_synonym handler = "calc \<Rightarrow> real list \<Rightarrow> (error + real) \<times> real list \<times> calc"

text \<open>\<^verbatim>\<open>stack.pop()\<close> and \<^verbatim>\<open>stack.pop(-2)\<close>.\<close>

definition pop :: "real list \<Rightarrow> error + real \<times> real list" where
  "pop stack = (if stack = [] then Inl IndexError else Inr (last stack, butlast stack))"

definition pop_second :: "real list \<Rightarrow> error + real \<times> real list" where
  "pop_second stack =
     (if length stack < 2 then Inl IndexError
      else Inr (stack ! (length stack - 2), take (length stack - 2) stack @ [last stack]))"

text \<open>\<^verbatim>\<open>stacksum\<close> and \<^verbatim>\<open>stackproduct\<close>: the loops \<^verbatim>\<open>while stack: acc += stack.pop()\<close>.\<close>

function stacksum_loop :: "real \<Rightarrow> real list \<Rightarrow> real \<times> real list" where
  "stacksum_loop acc stack =
     (if stack \<noteq> [] then stacksum_loop (acc + last stack) (butlast stack) else (acc, stack))"
  by pat_completeness auto
termination
  by (relation "measure (\<lambda>(acc, stack). length stack)") auto

definition stacksum :: "real list \<Rightarrow> real \<times> real list" where
  "stacksum stack = stacksum_loop 0 stack"

function stackproduct_loop :: "real \<Rightarrow> real list \<Rightarrow> real \<times> real list" where
  "stackproduct_loop acc stack =
     (if stack \<noteq> [] then stackproduct_loop (acc * last stack) (butlast stack)
      else (acc, stack))"
  by pat_completeness auto
termination
  by (relation "measure (\<lambda>(acc, stack). length stack)") auto

definition stackproduct :: "real list \<Rightarrow> real \<times> real list" where
  "stackproduct stack = stackproduct_loop 1 stack"

text \<open>
  The shapes of the lambdas. \<open>binary f\<close> is \<^verbatim>\<open>f(stack.pop(-2), stack.pop())\<close>,
  \<open>unary f\<close> is \<^verbatim>\<open>f(stack.pop())\<close>, \<open>top_two f\<close> is \<^verbatim>\<open>f(stack.pop(), stack.pop())\<close>.
  Python evaluates the arguments from left to right, so a pop that raises leaves the
  stack as the earlier pops made it.
\<close>

definition binary :: "(real \<Rightarrow> real \<Rightarrow> error + real) \<Rightarrow> real list \<Rightarrow> (error + real) \<times> real list" where
  "binary f stack =
     (case pop_second stack of
        Inl e \<Rightarrow> (Inl e, stack)
      | Inr (a, stack1) \<Rightarrow>
          (case pop stack1 of
             Inl e \<Rightarrow> (Inl e, stack1)
           | Inr (b, stack2) \<Rightarrow> (f a b, stack2)))"

definition unary :: "(real \<Rightarrow> error + real) \<Rightarrow> real list \<Rightarrow> (error + real) \<times> real list" where
  "unary f stack =
     (case pop stack of
        Inl e \<Rightarrow> (Inl e, stack)
      | Inr (a, stack1) \<Rightarrow> (f a, stack1))"

definition top_two :: "(real \<Rightarrow> real \<Rightarrow> error + real) \<Rightarrow> real list \<Rightarrow> (error + real) \<times> real list" where
  "top_two f stack =
     (case pop stack of
        Inl e \<Rightarrow> (Inl e, stack)
      | Inr (a, stack1) \<Rightarrow>
          (case pop stack1 of
             Inl e \<Rightarrow> (Inl e, stack1)
           | Inr (b, stack2) \<Rightarrow> (f a b, stack2)))"

definition drain :: "(real list \<Rightarrow> real \<times> real list) \<Rightarrow> real list \<Rightarrow> (error + real) \<times> real list" where
  "drain f stack = (case f stack of (acc, stack') \<Rightarrow> (Inr acc, stack'))"

text \<open>A handler that neither reads nor writes the state.\<close>

definition stack_only :: "(real list \<Rightarrow> (error + real) \<times> real list) \<Rightarrow> handler" where
  "stack_only h c stack = (case h stack of (r, stack') \<Rightarrow> (r, stack', c))"

text \<open>
  The arithmetic of Python floats and of the module \<^verbatim>\<open>math\<close> on the reals, with the
  exceptions Python raises: \<^verbatim>\<open>ZeroDivisionError\<close> for a zero divisor, for a zero base
  with a negative exponent and for a logarithm to base 1, \<^verbatim>\<open>ValueError\<close> outside the
  domain of a function of \<^verbatim>\<open>math\<close>. \<^verbatim>\<open>math.factorial\<close> is taken as accepting a float
  of integral value, as it does up to Python 3.9.
\<close>

definition total :: "(real \<Rightarrow> real) \<Rightarrow> real \<Rightarrow> error + real" where
  "total f x = Inr (f x)"

definition total2 :: "(real \<Rightarrow> real \<Rightarrow> real) \<Rightarrow> real \<Rightarrow> real \<Rightarrow> error + real" where
  "total2 f x y = Inr (f x y)"

definition truediv :: "real \<Rightarrow> real \<Rightarrow> error + real" where
  "truediv a b = (if b = 0 then Inl ZeroDivisionError else Inr (a / b))"

definition modulo :: "real \<Rightarrow> real \<Rightarrow> error + real" where
  "modulo a b = (if b = 0 then Inl ZeroDivisionError else Inr (a - b * of_int \<lfloor>a / b\<rfloor>))"

definition pow :: "real \<Rightarrow> real \<Rightarrow> error + real" where
  "pow a b =
     (if b = 0 then Inr 1
      else if a = 0 then (if b < 0 then Inl ZeroDivisionError else Inr 0)
      else if b = of_int \<lfloor>b\<rfloor> then Inr (a powi \<lfloor>b\<rfloor>)
      else if a < 0 then Inl ComplexResult
      else Inr (a powr b))"

definition factorial :: "real \<Rightarrow> error + real" where
  "factorial x =
     (if x = of_int \<lfloor>x\<rfloor> \<and> 0 \<le> x then Inr (of_nat (fact (nat \<lfloor>x\<rfloor>))) else Inl ValueError)"

definition math_log :: "real \<Rightarrow> error + real" where
  "math_log x = (if x \<le> 0 then Inl ValueError else Inr (ln x))"

definition math_log_base :: "real \<Rightarrow> real \<Rightarrow> error + real" where
  "math_log_base x b =
     (if x \<le> 0 \<or> b \<le> 0 then Inl ValueError
      else if b = 1 then Inl ZeroDivisionError
      else Inr (ln x / ln b))"

definition math_sqrt :: "real \<Rightarrow> error + real" where
  "math_sqrt x = (if x < 0 then Inl ValueError else Inr (sqrt x))"

definition math_asin :: "real \<Rightarrow> error + real" where
  "math_asin x = (if x < - 1 \<or> 1 < x then Inl ValueError else Inr (arcsin x))"

definition math_acos :: "real \<Rightarrow> error + real" where
  "math_acos x = (if x < - 1 \<or> 1 < x then Inl ValueError else Inr (arccos x))"

definition math_acosh :: "real \<Rightarrow> error + real" where
  "math_acosh x = (if x < 1 then Inl ValueError else Inr (arcosh x))"

definition math_atanh :: "real \<Rightarrow> error + real" where
  "math_atanh x = (if x \<le> - 1 \<or> 1 \<le> x then Inl ValueError else Inr (artanh x))"

text \<open>\<^verbatim>\<open>random.random()\<close> hands out the next value of the generator.\<close>

definition rand_handler :: handler where
  "rand_handler c stack =
     (Inr (random_source c 0), stack, c\<lparr>random_source := (\<lambda>n. random_source c (Suc n))\<rparr>)"

text \<open>\<^verbatim>\<open>lambda stack: self.ans\<close>.\<close>

definition ans_handler :: handler where
  "ans_handler c stack = (Inr (ans c), stack, c)"

text \<open>The dictionary \<^verbatim>\<open>operators\<close>, entry by entry.\<close>

definition operators :: "string \<rightharpoonup> handler" where
  "operators =
     [''++'' \<mapsto> stack_only (drain stacksum),
      ''**'' \<mapsto> stack_only (drain stackproduct),
      ''+'' \<mapsto> stack_only (binary (total2 (+))),
      ''-'' \<mapsto> stack_only (binary (total2 (-))),
      ''*'' \<mapsto> stack_only (binary (total2 (*))),
      ''/'' \<mapsto> stack_only (binary truediv),
      ''%'' \<mapsto> stack_only (binary modulo),
      ''^'' \<mapsto> stack_only (binary pow),
      ''!'' \<mapsto> stack_only (unary factorial),
      ''ln'' \<mapsto> stack_only (unary math_log),
      ''log'' \<mapsto> stack_only (binary math_log_base),
      ''log2'' \<mapsto> stack_only (unary (\<lambda>x. math_log_base x 2)),
      ''log10'' \<mapsto> stack_only (unary (\<lambda>x. math_log_base x 10)),
      ''rand'' \<mapsto> rand_handler,
      ''sqrt'' \<mapsto> stack_only (unary math_sqrt),
      ''exp'' \<mapsto> stack_only (unary (total exp)),
      ''sin'' \<mapsto> stack_only (unary (total sin)),
      ''cos'' \<mapsto> stack_only (unary (total cos)),
      ''tan'' \<mapsto> stack_only (unary (total tan)),
      ''sinh'' \<mapsto> stack_only (unary (total sinh)),
      ''cosh'' \<mapsto> stack_only (unary (total cosh)),
      ''tanh'' \<mapsto> stack_only (unary (total tanh)),
      ''arcsin'' \<mapsto> stack_only (unary math_asin),
      ''arccos'' \<mapsto> stack_only (unary math_acos),
      ''arctan'' \<mapsto> stack_only (unary (total arctan)),
      ''arcsinh'' \<mapsto> stack_only (unary (total arsinh)),
      ''arccosh'' \<mapsto> stack_only (unary math_acosh),
      ''arctanh'' \<mapsto> stack_only (unary math_atanh),
      ''max'' \<mapsto> stack_only (top_two (total2 max)),
      ''min'' \<mapsto> stack_only (top_two (total2 min)),
      ''abs'' \<mapsto> stack_only (unary (total abs)),
      ''ans'' \<mapsto> ans_handler]"

text \<open>
  \<^verbatim>\<open>operator(self, tok)\<close>: the handler of \<^verbatim>\<open>tok\<close>, or \<^verbatim>\<open>False\<close>, here \<open>None\<close>.
\<close>

definition operator :: "string \<Rightarrow> handler option" where
  "operator tok = operators tok"

subsection \<open>eval (rpn.py)\<close>

text \<open>
  \<^verbatim>\<open>self.ans = operation(stack); stack.append(self.ans)\<close>. When the handler raises,
  neither assignment nor append happens, and the stack stays as the handler left it.
\<close>

definition apply_operation :: "string \<Rightarrow> calc \<Rightarrow> real list \<Rightarrow> error option \<times> real list \<times> calc" where
  "apply_operation v c stack =
     (case operator v of
        None \<Rightarrow>
          (Some (SyntaxError (''unknown operator/function: '' @ [CHR 0x22] @ v @ [CHR 0x22])),
           stack, c)
      | Some operation \<Rightarrow>
          (case operation c stack of
             (Inl e, stack', c') \<Rightarrow> (Some e, stack', c')
           | (Inr r, stack', c') \<Rightarrow> (None, stack' @ [r], c'\<lparr>ans := r\<rparr>)))"

text \<open>
  One turn of \<^verbatim>\<open>for token in expr\<close>: the exception raised, if any, the stack and the
  state after it. A constant that is neither \<^verbatim>\<open>e\<close> nor \<^verbatim>\<open>pi\<close> falls through both tests
  and pushes nothing.
\<close>

fun eval_token :: "token \<Rightarrow> calc \<Rightarrow> real list \<Rightarrow> error option \<times> real list \<times> calc" where
  "eval_token (Literal x) c stack = (None, stack @ [x], c)"
| "eval_token (Constant v) c stack =
     (if v = ''e'' then (None, stack @ [exp 1], c)
      else if v = ''pi'' then (None, stack @ [pi], c)
      else (None, stack, c))"
| "eval_token (Operator v) c stack = apply_operation v c stack"
| "eval_token (Function v) c stack = apply_operation v c stack"
| "eval_token (Separator v) c stack = (None, stack, c)"
| "eval_token (LParen v) c stack =
     (Some (SyntaxError (''unexpected LParen: '' @ [CHR 0x22] @ v @ [CHR 0x22])), stack, c)"
| "eval_token (RParen v) c stack =
     (Some (SyntaxError (''unexpected RParen: '' @ [CHR 0x22] @ v @ [CHR 0x22])), stack, c)"

fun eval_loop :: "token list \<Rightarrow> calc \<Rightarrow> real list \<Rightarrow> error option \<times> real list \<times> calc" where
  "eval_loop [] c stack = (None, stack, c)"
| "eval_loop (token # expr) c stack =
     (case eval_token token c stack of
        (Some e, stack', c') \<Rightarrow> (Some e, stack', c')
      | (None, stack', c') \<Rightarrow> eval_loop expr c' stack')"

text \<open>
  \<^verbatim>\<open>eval(self, expr, stack=None)\<close>. The result is what the call returns or raises, then
  the stack object as the call leaves it, then the state. A call without a stack works on
  a fresh empty list.
\<close>

definition eval :: "calc \<Rightarrow> token list \<Rightarrow> real list option \<Rightarrow> (error + real list) \<times> real list \<times> calc" where
  "eval c expr stack_arg =
     (case eval_loop expr c (case stack_arg of None \<Rightarrow> [] | Some stack \<Rightarrow> stack) of
        (Some e, stack', c') \<Rightarrow> (Inl e, stack', c')
      | (None, stack', c') \<Rightarrow>
          if length stack' \<noteq> 1
          then (Inl (Warning ''there should be exactly one element left on stack''), stack', c')
          else (Inr stack', stack', c'))"

subsection \<open>One command of interactive (rpn.py)\<close>

text \<open>
  The body of \<^verbatim>\<open>while True\<close> for one line of input \<open>expr\<close>, without the printing of
  the stack in \<^verbatim>\<open>finally\<close>. The line goes from \<^verbatim>\<open>tokenize\<close> straight to \<^verbatim>\<open>eval\<close>: the
  interactive mode reads postfix input. \<^verbatim>\<open>except Warning: pass\<close> drops the warning;
  \<^verbatim>\<open>SyntaxError\<close>, \<^verbatim>\<open>IndexError\<close> and \<^verbatim>\<open>ZeroDivisionError\<close> are printed and the loop
  goes on; any other exception leaves the loop uncaught. In each case the variable
  \<^verbatim>\<open>stack\<close> still names the list that \<^verbatim>\<open>eval\<close> has mutated.
\<close>

datatype control = Continue | Break | Uncaught error

record command_result =
  control_flow :: control
  printed_error :: "error option"
  stack_after :: "real list"
  calc_after :: calc

fun handle_exception :: "error \<Rightarrow> real list \<Rightarrow> calc \<Rightarrow> command_result" where
  "handle_exception (Warning m) stack c =
     \<lparr>control_flow = Continue, printed_error = None, stack_after = stack, calc_after = c\<rparr>"
| "handle_exception (SyntaxError m) stack c =
     \<lparr>control_flow = Continue, printed_error = Some (SyntaxError m), stack_after = stack,
      calc_after = c\<rparr>"
| "handle_exception IndexError stack c =
     \<lparr>control_flow = Continue, printed_error = Some IndexError, stack_after = stack,
      calc_after = c\<rparr>"
| "handle_exception ZeroDivisionError stack c =
     \<lparr>control_flow = Continue, printed_error = Some ZeroDivisionError, stack_after = stack,
      calc_after = c\<rparr>"
| "handle_exception e stack c =
     \<lparr>control_flow = Uncaught e, printed_error = None, stack_after = stack, calc_after = c\<rparr>"

definition interactive_command :: "calc \<Rightarrow> real list \<Rightarrow> string \<Rightarrow> command_result" where
  "interactive_command c stack expr =
     (if expr \<in> set [''quit'', ''exit'']
      then \<lparr>control_flow = Break, printed_error = None, stack_after = stack, calc_after = c\<rparr>
      else if expr = ''pop''
      then (case pop stack of
              Inl e \<Rightarrow> handle_exception e stack c
            | Inr (x, stack') \<Rightarrow>
                \<lparr>control_flow = Continue, printed_error = None, stack_after = stack',
                 calc_after = c\<rparr>)
      else if expr = ''clear''
      then \<lparr>control_flow = Continue, printed_error = None, stack_after = [], calc_after = c\<rparr>
      else (case tokenize expr of
              Inl e \<Rightarrow> handle_exception e stack c
            | Inr toks \<Rightarrow>
                (case eval c toks (Some stack) of
                   (Inl e, stack', c') \<Rightarrow> handle_exception e stack' c'
                 | (Inr result, stack', c') \<Rightarrow>
                     \<lparr>control_flow = Continue, printed_error = None, stack_after = result,
                      calc_after = c'\<rparr>)))"

subsection \<open>Kinds of tokens\<close>

text \<open>
  The kinds a postfix sequence is made of, and the kinds the operator stack of
  \<^verbatim>\<open>shunting_yard\<close> holds.
\<close>

fun postfix_kind :: "token \<Rightarrow> bool" where
  "postfix_kind (Literal x) = True"
| "postfix_kind (Constant v) = True"
| "postfix_kind (Operator v) = True"
| "postfix_kind (Function v) = True"
| "postfix_kind t = False"

fun stack_kind :: "token \<Rightarrow> bool" where
  "stack_kind (Function v) = True"
| "stack_kind (Operator v) = True"
| "stack_kind (LParen v) = True"
| "stack_kind t = False"

text \<open>The tokens whose handler reads the state: \<^verbatim>\<open>ans\<close> and \<^verbatim>\<open>rand\<close>, under either kind.\<close>

fun reads_state :: "token \<Rightarrow> bool" where
  "reads_state (Operator v) = (v = ''ans'' \<or> v = ''rand'')"
| "reads_state (Function v) = (v = ''ans'' \<or> v = ''rand'')"
| "reads_state t = False"

section \<open>Properties\<close>

text \<open>
  The recursive equations of the loops are unfolded by name, on concrete stacks only.
\<close>

declare pop_to_LParen.simps [simp del]
declare pop_operators.simps [simp del]
declare pop_remaining.simps [simp del]
declare stacksum_loop.simps [simp del]
declare stackproduct_loop.simps [simp del]

lemmas tokenize_unfold =
  tokenize_def tokenize_char_def emit_def empty_buffers_def flush_number_def
  flush_letters_def float_def unsigned_float_def digits_value_def isdigit_def
  is_decimal_def isalpha_def isspace_def code_def OPS_def

lemmas shunting_yard_unfold =
  shunting_yard_def while_condition_def left_disjunct_def right_disjunct_def OPS_def
  pop_to_LParen.simps pop_operators.simps pop_remaining.simps

lemmas eval_unfold =
  eval_def apply_operation_def operator_def operators_def stack_only_def binary_def
  unary_def pop_def pop_second_def total2_def truediv_def pow_def

subsection \<open>Precedence\<close>

text \<open>
  C6. The input \<^verbatim>\<open>3+4*2\<close> is tokenized into five tokens, \<^verbatim>\<open>shunting_yard\<close> reorders
  them to the postfix sequence \<^verbatim>\<open>3 4 2 * +\<close>, and \<^verbatim>\<open>eval\<close> of that sequence on a fresh
  stack returns the stack holding the single value 11.
\<close>

theorem precedence_3_plus_4_times_2:
  "tokenize ''3+4*2'' =
     Inr [Literal 3, Operator ''+'', Literal 4, Operator ''*'', Literal 2] \<and>
   shunting_yard [Literal 3, Operator ''+'', Literal 4, Operator ''*'', Literal 2] =
     Inr [Literal 3, Literal 4, Literal 2, Operator ''*'', Operator ''+''] \<and>
   fst (eval (RPNCalculator g)
          [Literal 3, Literal 4, Literal 2, Operator ''*'', Operator ''+''] None) =
     Inr [11]"
proof -
  have "tokenize ''3+4*2'' =
     Inr [Literal 3, Operator ''+'', Literal 4, Operator ''*'', Literal 2]"
    by (simp add: tokenize_unfold)
  moreover have
    "shunting_yard [Literal 3, Operator ''+'', Literal 4, Operator ''*'', Literal 2] =
       Inr [Literal 3, Literal 4, Literal 2, Operator ''*'', Operator ''+'']"
    by (simp add: shunting_yard_unfold)
  moreover have
    "fst (eval (RPNCalculator g)
            [Literal 3, Literal 4, Literal 2, Operator ''*'', Operator ''+''] None) =
       Inr [11]"
    by (simp add: eval_unfold)
  ultimately show ?thesis by blast
qed

subsection \<open>Right associativity\<close>

text \<open>
  C1. The input \<^verbatim>\<open>2^3^2\<close> is tokenized, but \<^verbatim>\<open>shunting_yard\<close> raises \<^verbatim>\<open>IndexError\<close> at
  the first \<^verbatim>\<open>^\<close>: the stack is empty, the left disjunct of the loop condition is false,
  and the right disjunct reads \<^verbatim>\<open>stack[-1]\<close>. No value is computed. The grouping the
  source's comments describe is the postfix sequence \<^verbatim>\<open>2 3 2 ^ ^\<close>, on which \<^verbatim>\<open>eval\<close>
  does return 512.
\<close>

theorem power_chain_raises_IndexError:
  "tokenize ''2^3^2'' =
     Inr [Literal 2, Operator ''^'', Literal 3, Operator ''^'', Literal 2] \<and>
   shunting_yard [Literal 2, Operator ''^'', Literal 3, Operator ''^'', Literal 2] =
     Inl IndexError \<and>
   fst (eval (RPNCalculator g)
          [Literal 2, Literal 3, Literal 2, Operator ''^'', Operator ''^''] None) =
     Inr [512]"
proof -
  have "tokenize ''2^3^2'' =
     Inr [Literal 2, Operator ''^'', Literal 3, Operator ''^'', Literal 2]"
    by (simp add: tokenize_unfold)
  moreover have
    "shunting_yard [Literal 2, Operator ''^'', Literal 3, Operator ''^'', Literal 2] =
       Inl IndexError"
    by (simp add: shunting_yard_unfold)
  moreover have
    "fst (eval (RPNCalculator g)
            [Literal 2, Literal 3, Literal 2, Operator ''^'', Operator ''^''] None) =
       Inr [512]"
    by (simp add: eval_unfold)
  ultimately show ?thesis by blast
qed

subsection \<open>A lone minus sign in the numeric buffer\<close>

text \<open>
  C2. When the numeric buffer holds the single character \<^verbatim>\<open>-\<close>, \<^verbatim>\<open>empty_buffers\<close> raises
  \<^verbatim>\<open>ValueError\<close>, whatever the tokens and the letter buffer are: after appending the
  operator token it converts the buffer with \<^verbatim>\<open>float\<close>. So \<^verbatim>\<open>tokenize\<close> of \<^verbatim>\<open>1 - 2\<close>
  raises \<^verbatim>\<open>ValueError\<close> and yields no tokens.
\<close>

theorem lone_minus_raises_ValueError:
  "empty_buffers \<lparr>tokens = ts, letter_buffer = lb, number_buffer = ''-''\<rparr> = Inl ValueError \<and>
   tokenize ''1 - 2'' = Inl ValueError"
proof -
  have "empty_buffers \<lparr>tokens = ts, letter_buffer = lb, number_buffer = ''-''\<rparr> =
      Inl ValueError"
    by (simp add: empty_buffers_def flush_number_def flush_letters_def float_def
        unsigned_float_def)
  moreover have "tokenize ''1 - 2'' = Inl ValueError"
    by (simp add: tokenize_unfold)
  ultimately show ?thesis by blast
qed

subsection \<open>Mismatched brackets\<close>

lemma pop_to_LParen_stops:
  "pop_to_LParen out st = (out', st') \<Longrightarrow> st' = [] \<or> is_LParen (last st')"
proof (induction out st rule: pop_to_LParen.induct)
  case (1 out st)
  from "1.prems" have
    "(if st \<noteq> [] \<and> \<not> is_LParen (last st)
      then pop_to_LParen (out @ [last st]) (butlast st) else (out, st)) = (out', st')"
    by (subst (asm) pop_to_LParen.simps)
  with "1.IH" show ?case
    by (auto split: if_splits)
qed

text \<open>
  C4. The input \<^verbatim>\<open>(3+4\<close> fails in \<^verbatim>\<open>shunting_yard\<close> with the syntax error
  \<^verbatim>\<open>mismatched parentheses\<close>. The input \<^verbatim>\<open>3+4)\<close> fails with \<^verbatim>\<open>IndexError\<close> instead: the
  loop of the \<^verbatim>\<open>RParen\<close> branch empties the stack and the test that follows reads
  \<^verbatim>\<open>stack[-1]\<close>. That loop stops only on an empty stack or on a left bracket, so the
  branch never raises the syntax error it contains.
\<close>

theorem unmatched_right_bracket_raises_IndexError:
  "tokenize ''(3+4'' = Inr [LParen ''('', Literal 3, Operator ''+'', Literal 4] \<and>
   shunting_yard [LParen ''('', Literal 3, Operator ''+'', Literal 4] =
     Inl (SyntaxError ''mismatched parentheses'') \<and>
   tokenize ''3+4)'' = Inr [Literal 3, Operator ''+'', Literal 4, RParen '')''] \<and>
   shunting_yard [Literal 3, Operator ''+'', Literal 4, RParen '')''] = Inl IndexError \<and>
   shunting_yard_token (RParen v) output stack \<noteq> Inl (SyntaxError m)"
proof -
  have "tokenize ''(3+4'' = Inr [LParen ''('', Literal 3, Operator ''+'', Literal 4]"
    by (simp add: tokenize_unfold)
  moreover have "shunting_yard [LParen ''('', Literal 3, Operator ''+'', Literal 4] =
      Inl (SyntaxError ''mismatched parentheses'')"
    by (simp add: shunting_yard_unfold)
  moreover have "tokenize ''3+4)'' = Inr [Literal 3, Operator ''+'', Literal 4, RParen '')'']"
    by (simp add: tokenize_unfold)
  moreover have
    "shunting_yard [Literal 3, Operator ''+'', Literal 4, RParen '')''] = Inl IndexError"
    by (simp add: shunting_yard_unfold)
  moreover have "shunting_yard_token (RParen v) output stack \<noteq> Inl (SyntaxError m)"
  proof -
    obtain output' stack' where p: "pop_to_LParen output stack = (output', stack')"
      by (cases "pop_to_LParen output stack")
    from pop_to_LParen_stops [OF p] show ?thesis
      by (auto simp: p Let_def)
  qed
  ultimately show ?thesis by blast
qed

subsection \<open>The kinds of the tokens in the output of shunting_yard\<close>

lemma stack_kind_last: "list_all stack_kind st \<Longrightarrow> st \<noteq> [] \<Longrightarrow> stack_kind (last st)"
  by (simp add: list_all_iff)

lemma stack_kind_butlast: "list_all stack_kind st \<Longrightarrow> list_all stack_kind (butlast st)"
  by (auto simp: list_all_iff dest: in_set_butlastD)

lemma stack_kind_postfix: "stack_kind t \<Longrightarrow> \<not> is_LParen t \<Longrightarrow> postfix_kind t"
  by (cases t) auto

lemma pop_to_LParen_kinds:
  "pop_to_LParen out st = (out', st') \<Longrightarrow> list_all postfix_kind out \<Longrightarrow> list_all stack_kind st
   \<Longrightarrow> list_all postfix_kind out' \<and> list_all stack_kind st'"
proof (induction out st rule: pop_to_LParen.induct)
  case (1 out st)
  from "1.prems"(1) have eq:
    "(if st \<noteq> [] \<and> \<not> is_LParen (last st)
      then pop_to_LParen (out @ [last st]) (butlast st) else (out, st)) = (out', st')"
    by (subst (asm) pop_to_LParen.simps)
  show ?case
  proof (cases "st \<noteq> [] \<and> \<not> is_LParen (last st)")
    case True
    with eq have "pop_to_LParen (out @ [last st]) (butlast st) = (out', st')" by simp
    moreover from True "1.prems" have "list_all postfix_kind (out @ [last st])"
      by (simp add: stack_kind_last stack_kind_postfix)
    moreover from "1.prems" have "list_all stack_kind (butlast st)"
      by (simp add: stack_kind_butlast)
    ultimately show ?thesis using "1.IH" [OF True] by blast
  next
    case False
    with eq "1.prems" show ?thesis by auto
  qed
qed

lemma while_condition_top:
  "while_condition tok st = Inr True \<Longrightarrow> st \<noteq> [] \<and> is_Operator (last st)"
proof -
  assume a: "while_condition tok st = Inr True"
  have r: "right_disjunct tok st \<noteq> Inr True"
    by (cases tok; cases "last st")
      (auto simp: right_disjunct_def OPS_def split: sum.splits if_splits option.splits)
  from a r show ?thesis
    by (auto simp: while_condition_def left_disjunct_def split: sum.splits if_splits)
qed

lemma is_Operator_postfix: "is_Operator t \<Longrightarrow> postfix_kind t"
  by (cases t) auto

lemma pop_operators_kinds:
  "pop_operators tok out st = Inr (out', st') \<Longrightarrow> list_all postfix_kind out \<Longrightarrow> list_all stack_kind st
   \<Longrightarrow> list_all postfix_kind out' \<and> list_all stack_kind st'"
proof (induction tok out st rule: pop_operators.induct)
  case (1 tok out st)
  from "1.prems"(1) have eq:
    "(case while_condition tok st of Inl e \<Rightarrow> Inl e
      | Inr b \<Rightarrow> if b then pop_operators tok (out @ [last st]) (butlast st) else Inr (out, st))
     = Inr (out', st')"
    by (subst (asm) pop_operators.simps)
  then obtain b where b: "while_condition tok st = Inr b"
    by (cases "while_condition tok st") auto
  show ?case
  proof (cases b)
    case True
    with b eq have "pop_operators tok (out @ [last st]) (butlast st) = Inr (out', st')" by simp
    moreover from True b have "st \<noteq> [] \<and> is_Operator (last st)"
      by (simp add: while_condition_top)
    with "1.prems" have "list_all postfix_kind (out @ [last st])"
      by (simp add: is_Operator_postfix)
    moreover from "1.prems" have "list_all stack_kind (butlast st)"
      by (simp add: stack_kind_butlast)
    ultimately show ?thesis using "1.IH" [OF b True] by blast
  next
    case False
    with b eq "1.prems" show ?thesis by auto
  qed
qed

lemma shunting_yard_token_kinds:
  "shunting_yard_token tok out st = Inr (out', st') \<Longrightarrow> list_all postfix_kind out \<Longrightarrow> list_all stack_kind st
   \<Longrightarrow> list_all postfix_kind out' \<and> list_all stack_kind st'"
proof (cases tok)
  case (Separator v)
  assume a: "shunting_yard_token tok out st = Inr (out', st')" "list_all postfix_kind out" "list_all stack_kind st"
  obtain o1 s1 where p: "pop_to_LParen out st = (o1, s1)" by (cases "pop_to_LParen out st")
  from a Separator p have "o1 = out' \<and> s1 = st'" by (auto split: if_splits)
  with pop_to_LParen_kinds [OF p a(2) a(3)] show ?thesis by simp
next
  case (Operator v)
  assume a: "shunting_yard_token tok out st = Inr (out', st')" "list_all postfix_kind out" "list_all stack_kind st"
  from a Operator obtain o1 s1 where p: "pop_operators (Operator v) out st = Inr (o1, s1)"
     and e: "out' = o1" "st' = s1 @ [Operator v]"
    by (auto split: sum.splits)
  from pop_operators_kinds [OF p a(2) a(3)] e show ?thesis by simp
next
  case (RParen v)
  assume a: "shunting_yard_token tok out st = Inr (out', st')" "list_all postfix_kind out" "list_all stack_kind st"
  obtain o1 s1 where p: "pop_to_LParen out st = (o1, s1)" by (cases "pop_to_LParen out st")
  from pop_to_LParen_kinds [OF p a(2) a(3)] have k: "list_all postfix_kind o1" "list_all stack_kind s1"
    by simp_all
  have k2: "list_all stack_kind (butlast s1)" "list_all stack_kind (butlast (butlast s1))"
    using k(2) by (simp_all add: stack_kind_butlast)
  have k3: "is_Function (last (butlast s1)) \<Longrightarrow> postfix_kind (last (butlast s1))"
    by (cases "last (butlast s1)") auto
  from a(1) RParen p k k2 k3 show ?thesis
    by (auto simp: Let_def split: if_splits)
qed auto

lemma shunting_yard_loop_kinds:
  "shunting_yard_loop expr out st = Inr (out', st') \<Longrightarrow> list_all postfix_kind out \<Longrightarrow> list_all stack_kind st
   \<Longrightarrow> list_all postfix_kind out' \<and> list_all stack_kind st'"
proof (induction expr arbitrary: out st)
  case Nil
  then show ?case by simp
next
  case (Cons tok expr)
  from Cons.prems(1) obtain o1 s1 where t: "shunting_yard_token tok out st = Inr (o1, s1)"
    and l: "shunting_yard_loop expr o1 s1 = Inr (out', st')"
    by (auto split: sum.splits)
  from shunting_yard_token_kinds [OF t Cons.prems(2) Cons.prems(3)] Cons.IH [OF l]
  show ?case by blast
qed

lemma stack_kind_remaining: "stack_kind t \<Longrightarrow> \<not> (is_LParen t \<or> is_RParen t) \<Longrightarrow> postfix_kind t"
  by (cases t) auto

lemma pop_remaining_kinds:
  "pop_remaining out st = Inr out' \<Longrightarrow> list_all postfix_kind out \<Longrightarrow> list_all stack_kind st
   \<Longrightarrow> list_all postfix_kind out'"
proof (induction out st rule: pop_remaining.induct)
  case (1 out st)
  from "1.prems"(1) have eq:
    "(if st \<noteq> []
      then (if is_LParen (last st) \<or> is_RParen (last st)
            then Inl (SyntaxError ''mismatched parentheses'')
            else pop_remaining (out @ [last st]) (butlast st))
      else Inr out) = Inr out'"
    by (subst (asm) pop_remaining.simps)
  show ?case
  proof (cases "st \<noteq> []")
    case True
    with eq have np: "\<not> (is_LParen (last st) \<or> is_RParen (last st))"
      by (auto split: if_splits)
    with True eq have r: "pop_remaining (out @ [last st]) (butlast st) = Inr out'" by simp
    from True np "1.prems" have "list_all postfix_kind (out @ [last st])"
      by (simp add: stack_kind_last stack_kind_remaining)
    moreover from "1.prems" have "list_all stack_kind (butlast st)"
      by (simp add: stack_kind_butlast)
    ultimately show ?thesis using "1.IH" [OF True np r] by blast
  next
    case False
    with eq "1.prems" show ?thesis by auto
  qed
qed

text \<open>
  C10. Whenever \<^verbatim>\<open>shunting_yard\<close> returns, every token of the sequence it returns is a
  \<^verbatim>\<open>Literal\<close>, a \<^verbatim>\<open>Constant\<close>, an \<^verbatim>\<open>Operator\<close> or a \<^verbatim>\<open>Function\<close>; no \<^verbatim>\<open>LParen\<close>,
  \<^verbatim>\<open>RParen\<close> or \<^verbatim>\<open>Separator\<close> token is in it.
\<close>

theorem shunting_yard_output_kinds:
  "shunting_yard expr = Inr out \<Longrightarrow> list_all postfix_kind out"
proof -
  assume a: "shunting_yard expr = Inr out"
  then obtain o1 s1 where l: "shunting_yard_loop expr [] [] = Inr (o1, s1)"
    and r: "pop_remaining o1 s1 = Inr out"
    by (auto simp: shunting_yard_def split: sum.splits)
  from shunting_yard_loop_kinds [OF l] have "list_all postfix_kind o1 \<and> list_all stack_kind s1"
    by simp
  with pop_remaining_kinds [OF r] show ?thesis by blast
qed

theorem shunting_yard_output_kinds_witness:
  "shunting_yard [Literal 3, Operator ''+'', Literal 4, Operator ''*'', Literal 2] =
     Inr [Literal 3, Literal 4, Literal 2, Operator ''*'', Operator ''+''] \<and>
   list_all postfix_kind [Literal 3, Literal 4, Literal 2, Operator ''*'', Operator ''+'']"
proof -
  have h: "shunting_yard [Literal 3, Operator ''+'', Literal 4, Operator ''*'', Literal 2] =
     Inr [Literal 3, Literal 4, Literal 2, Operator ''*'', Operator ''+'']"
    by (simp add: shunting_yard_unfold)
  from h shunting_yard_output_kinds [OF h] show ?thesis by blast
qed

subsection \<open>The variadic reducers\<close>






subsection \<open>The answer register\<close>










subsection \<open>The size of the final stack\<close>

text \<open>
  C3, as the claim states it, fails: on a final stack of zero or of two values \<^verbatim>\<open>eval\<close>
  raises \<^verbatim>\<open>Warning\<close> and returns nothing.
\<close>

theorem eval_raises_Warning_counterexample:
  "eval (RPNCalculator (\<lambda>n. 0)) [] None =
     (Inl (Warning ''there should be exactly one element left on stack''), [],
      RPNCalculator (\<lambda>n. 0)) \<and>
   eval (RPNCalculator (\<lambda>n. 0)) [Literal 1, Literal 2] None =
     (Inl (Warning ''there should be exactly one element left on stack''), [1, 2],
      RPNCalculator (\<lambda>n. 0))"
  by (simp add: eval_def)

text \<open>
  C3, amended. When all tokens are processed without an exception, \<^verbatim>\<open>eval\<close> returns the
  stack if it holds exactly one value and raises \<^verbatim>\<open>Warning\<close> otherwise; in both cases
  the supplied stack holds the resulting values. The interactive loop drops the warning:
  for a line that tokenizes to such a sequence it prints no error and goes on with the
  resulting stack.
\<close>

theorem eval_final_stack:
  assumes "eval_loop expr c stack = (None, stack', c')"
  shows "eval c expr (Some stack) =
           (if length stack' = 1 then Inr stack'
            else Inl (Warning ''there should be exactly one element left on stack''),
            stack', c') \<and>
         (tokenize line = Inr expr \<and> line \<notin> set [''quit'', ''exit'', ''pop'', ''clear'']
          \<longrightarrow> interactive_command c stack line =
                \<lparr>control_flow = Continue, printed_error = None, stack_after = stack',
                 calc_after = c'\<rparr>)"
proof -
  have e: "eval c expr (Some stack) =
           (if length stack' = 1 then Inr stack'
            else Inl (Warning ''there should be exactly one element left on stack''),
            stack', c')"
    using assms by (simp add: eval_def)
  then have "interactive_command c stack line =
                \<lparr>control_flow = Continue, printed_error = None, stack_after = stack',
                 calc_after = c'\<rparr>"
    if "tokenize line = Inr expr" "line \<notin> set [''quit'', ''exit'', ''pop'', ''clear'']"
    using that by (cases "length stack' = 1") (simp_all add: interactive_command_def)
  with e show ?thesis by blast
qed

theorem eval_final_stack_witness:
  "eval_loop [Literal 1, Literal 2] (RPNCalculator (\<lambda>n. 0)) [5] =
     (None, [5, 1, 2], RPNCalculator (\<lambda>n. 0)) \<and>
   eval (RPNCalculator (\<lambda>n. 0)) [Literal 1, Literal 2] (Some [5]) =
     (Inl (Warning ''there should be exactly one element left on stack''), [5, 1, 2],
      RPNCalculator (\<lambda>n. 0)) \<and>
   tokenize ''1 2'' = Inr [Literal 1, Literal 2] \<and>
   interactive_command (RPNCalculator (\<lambda>n. 0)) [5] ''1 2'' =
     \<lparr>control_flow = Continue, printed_error = None, stack_after = [5, 1, 2],
      calc_after = RPNCalculator (\<lambda>n. 0)\<rparr>"
proof -
  have a: "eval_loop [Literal 1, Literal 2] (RPNCalculator (\<lambda>n. 0)) [5] =
     (None, [5, 1, 2], RPNCalculator (\<lambda>n. 0))"
    by simp
  have b: "tokenize ''1 2'' = Inr [Literal 1, Literal 2]"
    by (simp add: tokenize_unfold)
  have c: "''1 2'' \<notin> set [''quit'', ''exit'', ''pop'', ''clear'']"
    by simp
  from eval_final_stack [OF a, of "''1 2''"] a b c show ?thesis by simp
qed

subsection \<open>The stack after a failure\<close>










subsection \<open>Evaluating a sequence twice\<close>

lemma operators_stack_only:
  "operators v = Some h \<Longrightarrow> v \<noteq> ''ans'' \<Longrightarrow> v \<noteq> ''rand'' \<Longrightarrow> \<exists>h0. h = stack_only h0"
  unfolding operators_def by (simp split: if_splits) blast+

lemma apply_operation_independent:
  assumes "v \<noteq> ''ans''" and "v \<noteq> ''rand''"
  shows "fst (apply_operation v d stack) = fst (apply_operation v c stack) \<and>
         fst (snd (apply_operation v d stack)) = fst (snd (apply_operation v c stack))"
proof (cases "operator v")
  case None
  then show ?thesis by (simp add: apply_operation_def)
next
  case (Some h)
  with assms obtain h0 where h: "h = stack_only h0"
    using operators_stack_only by (auto simp: operator_def)
  obtain r s where "h0 stack = (r, s)" by (cases "h0 stack")
  with Some h show ?thesis
    by (cases r) (simp_all add: apply_operation_def stack_only_def)
qed

lemma eval_token_independent:
  "\<not> reads_state t \<Longrightarrow>
   fst (eval_token t d stack) = fst (eval_token t c stack) \<and>
   fst (snd (eval_token t d stack)) = fst (snd (eval_token t c stack))"
  by (cases t) (simp_all add: apply_operation_independent)

lemma eval_loop_independent:
  "list_all (\<lambda>t. \<not> reads_state t) expr \<Longrightarrow>
   fst (eval_loop expr d stack) = fst (eval_loop expr c stack) \<and>
   fst (snd (eval_loop expr d stack)) = fst (snd (eval_loop expr c stack))"
proof (induction expr arbitrary: c d stack)
  case Nil
  then show ?case by simp
next
  case (Cons t expr)
  then have t: "\<not> reads_state t" and rest: "list_all (\<lambda>t. \<not> reads_state t) expr"
    by simp_all
  obtain r1 s1 c1 where c: "eval_token t c stack = (r1, s1, c1)"
    by (cases "eval_token t c stack") auto
  obtain r2 s2 d1 where d: "eval_token t d stack = (r2, s2, d1)"
    by (cases "eval_token t d stack") auto
  from eval_token_independent [OF t, of d stack c] c d have same: "r2 = r1" "s2 = s1"
    by simp_all
  show ?case
  proof (cases r1)
    case None
    with c d same Cons.IH [OF rest, of d1 s1 c1] show ?thesis by simp
  next
    case (Some e)
    with c d same show ?thesis by simp
  qed
qed

lemma eval_independent:
  assumes "list_all (\<lambda>t. \<not> reads_state t) expr"
  shows "fst (eval d expr None) = fst (eval c expr None) \<and>
         fst (snd (eval d expr None)) = fst (snd (eval c expr None))"
proof -
  obtain r1 s1 c1 where c: "eval_loop expr c [] = (r1, s1, c1)"
    by (cases "eval_loop expr c []") auto
  obtain r2 s2 d1 where d: "eval_loop expr d [] = (r2, s2, d1)"
    by (cases "eval_loop expr d []") auto
  from eval_loop_independent [OF assms, of d "[]" c] c d have "r2 = r1" "s2 = s1"
    by simp_all
  with c d show ?thesis
    by (cases r1) (simp_all add: eval_def)
qed

text \<open>
  C9, as the claim states it, fails: the sequence \<^verbatim>\<open>ans 1 +\<close>, evaluated twice with the
  same calculator on a fresh stack, gives 1 and then 2.
\<close>

theorem repeated_eval_counterexample:
  "eval (RPNCalculator (\<lambda>n. 0)) [Function ''ans'', Literal 1, Operator ''+''] None =
     (Inr [1], [1], (RPNCalculator (\<lambda>n. 0))\<lparr>ans := 1\<rparr>) \<and>
   eval ((RPNCalculator (\<lambda>n. 0))\<lparr>ans := 1\<rparr>) [Function ''ans'', Literal 1, Operator ''+''] None =
     (Inr [2], [2], (RPNCalculator (\<lambda>n. 0))\<lparr>ans := 2\<rparr>)"
  by (simp add: eval_unfold ans_handler_def RPNCalculator_def)

text \<open>
  C9, amended. For every token sequence in which no token names \<^verbatim>\<open>ans\<close> or \<^verbatim>\<open>rand\<close>,
  evaluating it twice with the same calculator, each time on a fresh stack, gives the same
  outcome (the same returned stack or the same exception) and leaves the same stack.
\<close>

theorem repeated_eval_same_result:
  assumes "list_all (\<lambda>t. \<not> reads_state t) expr"
    and "eval c expr None = (result1, stack1, c1)"
    and "eval c1 expr None = (result2, stack2, c2)"
  shows "result2 = result1 \<and> stack2 = stack1"
  using eval_independent [OF assms(1), of c1 c] assms(2,3) by simp

theorem repeated_eval_same_result_witness:
  "list_all (\<lambda>t. \<not> reads_state t) [Literal 1, Literal 2, Operator ''+''] \<and>
   eval (RPNCalculator (\<lambda>n. 0)) [Literal 1, Literal 2, Operator ''+''] None =
     (Inr [3], [3], (RPNCalculator (\<lambda>n. 0))\<lparr>ans := 3\<rparr>) \<and>
   eval ((RPNCalculator (\<lambda>n. 0))\<lparr>ans := 3\<rparr>) [Literal 1, Literal 2, Operator ''+''] None =
     (Inr [3], [3], (RPNCalculator (\<lambda>n. 0))\<lparr>ans := 3\<rparr>)"
proof -
  have a: "list_all (\<lambda>t. \<not> reads_state t) [Literal 1, Literal 2, Operator ''+'']"
    by simp
  have b: "eval (RPNCalculator (\<lambda>n. 0)) [Literal 1, Literal 2, Operator ''+''] None =
     (Inr [3], [3], (RPNCalculator (\<lambda>n. 0))\<lparr>ans := 3\<rparr>)"
    by (simp add: eval_unfold RPNCalculator_def)
  have c: "eval ((RPNCalculator (\<lambda>n. 0))\<lparr>ans := 3\<rparr>) [Literal 1, Literal 2, Operator ''+''] None =
     (Inr [3], [3], (RPNCalculator (\<lambda>n. 0))\<lparr>ans := 3\<rparr>)"
    by (simp add: eval_unfold RPNCalculator_def)
  from repeated_eval_same_result [OF a b c] a b c show ?thesis by blast
qed

end
